theory Spec2Isabelle
  imports Complex_Main
begin

section \<open>The character display shared by both programs\<close>

text \<open>
  Both scripts wrap the 16x2 LCD in the class \<^verbatim>\<open>ManagedDisplay\<close>. Only the text
  currently shown and whether the pins have been released matter here.
\<close>

record ManagedDisplay =
  lcd_message :: string
  deinit :: bool

definition newline :: char where
  "newline = CHR 0x0A"

definition clear :: "ManagedDisplay \<Rightarrow> ManagedDisplay" where
  "clear d = d\<lparr>lcd_message := []\<rparr>"

definition updateScreen :: "string \<Rightarrow> ManagedDisplay \<Rightarrow> ManagedDisplay" where
  "updateScreen message d = (clear d)\<lparr>lcd_message := message\<rparr>"

definition cleanupDisplay :: "ManagedDisplay \<Rightarrow> ManagedDisplay" where
  "cleanupDisplay d = (clear d)\<lparr>deinit := True\<rparr>"

text \<open>
  The state-machine library raises its transition-not-allowed exception when an event
  has no transition from the current state; the specification calls it
  \<^verbatim>\<open>InvalidTransition\<close>.
\<close>

datatype error = InvalidTransition


section \<open>Milestone35.py: the Morse beacon\<close>

subsection \<open>States, events and the transition table\<close>

datatype cwstate = off | dot | dash | dotDashPause | letterPause | wordPause

datatype cwevent = doDot | doDash | doDDP | doLP | doWP | goOff

text \<open>One equation per \<^verbatim>\<open>source.to(target)\<close> of the class body, in its order.\<close>

fun transitions :: "cwevent \<Rightarrow> cwstate \<Rightarrow> cwstate option" where
  "transitions doDot off = Some dot"
| "transitions doDot dot = Some off"
| "transitions doDash off = Some dash"
| "transitions doDash dash = Some off"
| "transitions doDDP off = Some dotDashPause"
| "transitions doDDP dot = Some dotDashPause"
| "transitions doDDP dash = Some dotDashPause"
| "transitions doDDP dotDashPause = Some off"
| "transitions doLP off = Some letterPause"
| "transitions doLP dotDashPause = Some letterPause"
| "transitions doLP letterPause = Some off"
| "transitions doWP off = Some wordPause"
| "transitions doWP letterPause = Some wordPause"
| "transitions doWP wordPause = Some off"
| "transitions goOff dot = Some off"
| "transitions goOff dash = Some off"
| "transitions goOff dotDashPause = Some off"
| "transitions goOff letterPause = Some off"
| "transitions goOff wordPause = Some off"
| "transitions _ _ = None"

subsection \<open>The machine\<close>

text \<open>
  The fields of \<^verbatim>\<open>CWMachine\<close> that the code reads or writes. Two fields are
  bookkeeping of the model: \<open>elapsed\<close> adds up the arguments of every \<^verbatim>\<open>sleep\<close>
  the machine has executed (in seconds, the source's time unit), and \<open>history\<close> lists
  the events fired so far, oldest first. The flag \<^verbatim>\<open>endTransmission\<close> is written by
  the main thread only; \<open>transmit\<close> below receives it as a function of the elapsed time.
\<close>

record CWMachine =
  current_state :: cwstate
  redLight :: bool
  blueLight :: bool
  activeMessage :: string
  screen :: ManagedDisplay
  elapsed :: rat
  history :: "cwevent list"

definition message1 :: string where
  "message1 = ''SOS''"

definition message2 :: string where
  "message2 = ''OK''"

definition cwMachine :: CWMachine where
  "cwMachine = \<lparr>current_state = off, redLight = False, blueLight = False,
     activeMessage = message1, screen = \<lparr>lcd_message = [], deinit = False\<rparr>,
     elapsed = 0, history = []\<rparr>"

definition morseDict :: "char \<rightharpoonup> string" where
  "morseDict = map_of
    [(CHR ''A'', ''.-''), (CHR ''B'', ''-...''), (CHR ''C'', ''-.-.''), (CHR ''D'', ''-..''),
     (CHR ''E'', ''.''), (CHR ''F'', ''..-.''), (CHR ''G'', ''--.''), (CHR ''H'', ''....''),
     (CHR ''I'', ''..''), (CHR ''J'', ''.---''), (CHR ''K'', ''-.-''), (CHR ''L'', ''.-..''),
     (CHR ''M'', ''--''), (CHR ''N'', ''-.''), (CHR ''O'', ''---''), (CHR ''P'', ''.--.''),
     (CHR ''Q'', ''--.-''), (CHR ''R'', ''.-.''), (CHR ''S'', ''...''), (CHR ''T'', ''-''),
     (CHR ''U'', ''..-''), (CHR ''V'', ''...-''), (CHR ''W'', ''.--''), (CHR ''X'', ''-..-''),
     (CHR ''Y'', ''-.--''), (CHR ''Z'', ''--..''), (CHR ''0'', ''-----''), (CHR ''1'', ''.----''),
     (CHR ''2'', ''..---''), (CHR ''3'', ''...--''), (CHR ''4'', ''....-''), (CHR ''5'', ''.....''),
     (CHR ''6'', ''-....''), (CHR ''7'', ''--...''), (CHR ''8'', ''---..''), (CHR ''9'', ''----.'')]"

subsection \<open>Entry and exit actions\<close>

definition sleep :: "rat \<Rightarrow> CWMachine \<Rightarrow> CWMachine" where
  "sleep secs m = m\<lparr>elapsed := elapsed m + secs\<rparr>"

definition on_enter_dot :: "CWMachine \<Rightarrow> CWMachine" where
  "on_enter_dot m = sleep (1 / 2) (m\<lparr>redLight := True\<rparr>)"

definition on_exit_dot :: "CWMachine \<Rightarrow> CWMachine" where
  "on_exit_dot m = m\<lparr>redLight := False\<rparr>"

definition on_enter_dash :: "CWMachine \<Rightarrow> CWMachine" where
  "on_enter_dash m = sleep (3 / 2) (m\<lparr>blueLight := True\<rparr>)"

definition on_exit_dash :: "CWMachine \<Rightarrow> CWMachine" where
  "on_exit_dash m = m\<lparr>blueLight := False\<rparr>"

definition on_enter_dotDashPause :: "CWMachine \<Rightarrow> CWMachine" where
  "on_enter_dotDashPause m = sleep (1 / 4) m"

definition on_enter_letterPause :: "CWMachine \<Rightarrow> CWMachine" where
  "on_enter_letterPause m = sleep (3 / 4) m"

definition on_enter_wordPause :: "CWMachine \<Rightarrow> CWMachine" where
  "on_enter_wordPause m = sleep 3 m"

text \<open>The library calls \<^verbatim>\<open>on_enter_<state>\<close> and \<^verbatim>\<open>on_exit_<state>\<close> where the class defines them.\<close>

fun on_enter :: "cwstate \<Rightarrow> CWMachine \<Rightarrow> CWMachine" where
  "on_enter dot m = on_enter_dot m"
| "on_enter dash m = on_enter_dash m"
| "on_enter dotDashPause m = on_enter_dotDashPause m"
| "on_enter letterPause m = on_enter_letterPause m"
| "on_enter wordPause m = on_enter_wordPause m"
| "on_enter off m = m"

fun on_exit :: "cwstate \<Rightarrow> CWMachine \<Rightarrow> CWMachine" where
  "on_exit dot m = on_exit_dot m"
| "on_exit dash m = on_exit_dash m"
| "on_exit _ m = m"

text \<open>
  Calling an event: look the pair (event, current state) up; without a transition the
  call raises; otherwise run the exit action of the source, move, run the entry action
  of the target.
\<close>

definition fire :: "cwevent \<Rightarrow> CWMachine \<Rightarrow> error + CWMachine" where
  "fire e m =
     (case transitions e (current_state m) of
        None \<Rightarrow> Inl InvalidTransition
      | Some target \<Rightarrow>
          Inr (on_enter target
                ((on_exit (current_state m) m)
                   \<lparr>current_state := target, history := history m @ [e]\<rparr>)))"

text \<open>Firing an event on the outcome of an earlier call (an exception propagates).\<close>

definition then_fire :: "cwevent \<Rightarrow> error + CWMachine \<Rightarrow> error + CWMachine" where
  "then_fire e r = (case r of Inl x \<Rightarrow> Inl x | Inr m \<Rightarrow> fire e m)"

definition result_state :: "error + CWMachine \<Rightarrow> error + cwstate" where
  "result_state r = map_sum id current_state r"

subsection \<open>The button\<close>

definition toggleMessage :: "CWMachine \<Rightarrow> CWMachine" where
  "toggleMessage m =
     m\<lparr>activeMessage := (if activeMessage m = message1 then message2 else message1)\<rparr>"

definition processButton :: "CWMachine \<Rightarrow> CWMachine" where
  "processButton m = toggleMessage m"

subsection \<open>Strings: \<^verbatim>\<open>split\<close> and \<^verbatim>\<open>upper\<close> on ASCII text\<close>

text \<open>
  Messages are ASCII (the two configured ones are). \<open>isspace\<close> is Python's whitespace
  test on ASCII code points, \<open>split\<close> is \<^verbatim>\<open>str.split()\<close> without arguments (runs of
  whitespace separate the words, no empty word is produced), \<open>upper\<close> is
  \<^verbatim>\<open>str.upper()\<close>.
\<close>

definition isspace :: "char \<Rightarrow> bool" where
  "isspace c = (let n = (of_char c :: nat) in n = 32 \<or> (9 \<le> n \<and> n \<le> 13) \<or> (28 \<le> n \<and> n \<le> 31))"

fun split_from :: "string \<Rightarrow> string \<Rightarrow> string list" where
  "split_from cur [] = (if cur = [] then [] else [cur])"
| "split_from cur (c # cs) =
     (if isspace c then (if cur = [] then split_from [] cs else cur # split_from [] cs)
      else split_from (cur @ [c]) cs)"

definition split :: "string \<Rightarrow> string list" where
  "split s = split_from [] s"

definition upper_char :: "char \<Rightarrow> char" where
  "upper_char c = (let n = (of_char c :: nat) in if 97 \<le> n \<and> n \<le> 122 then char_of (n - 32) else c)"

definition upper :: "string \<Rightarrow> string" where
  "upper s = map upper_char s"

subsection \<open>The transmission loop\<close>

text \<open>\<^verbatim>\<open>if self.current_state != self.off: self.goOff()\<close>\<close>

definition goOff_unless_off :: "CWMachine \<Rightarrow> error + CWMachine" where
  "goOff_unless_off m = (if current_state m \<noteq> off then fire goOff m else Inr m)"

text \<open>\<^verbatim>\<open>for symbol in morse\<close>, with the loop's counter and bound as arguments.\<close>

fun symbol_loop :: "string \<Rightarrow> nat \<Rightarrow> nat \<Rightarrow> CWMachine \<Rightarrow> error + CWMachine" where
  "symbol_loop [] morseCounter lenMorse m = Inr m"
| "symbol_loop (symbol # rest) morseCounter lenMorse m =
     (case goOff_unless_off m of Inl x \<Rightarrow> Inl x | Inr m1 \<Rightarrow>
      (case (if symbol = CHR ''.'' then fire doDot m1
             else if symbol = CHR ''-'' then fire doDash m1
             else Inr m1) of Inl x \<Rightarrow> Inl x | Inr m2 \<Rightarrow>
       (if morseCounter < lenMorse then
          (case goOff_unless_off m2 of Inl x \<Rightarrow> Inl x | Inr m3 \<Rightarrow>
           (case fire doDDP m3 of Inl x \<Rightarrow> Inl x | Inr m4 \<Rightarrow>
              symbol_loop rest (morseCounter + 1) lenMorse m4))
        else symbol_loop rest morseCounter lenMorse m2)))"

text \<open>\<^verbatim>\<open>self.morseDict.get(char, "")\<close>\<close>

definition morse_of :: "char \<Rightarrow> string" where
  "morse_of char = (case morseDict char of None \<Rightarrow> [] | Some s \<Rightarrow> s)"

text \<open>\<^verbatim>\<open>for char in word.upper()\<close>; the caller passes the uppercased word.\<close>

fun char_loop :: "string \<Rightarrow> nat \<Rightarrow> nat \<Rightarrow> CWMachine \<Rightarrow> error + CWMachine" where
  "char_loop [] wordCounter lenWord m = Inr m"
| "char_loop (char # rest) wordCounter lenWord m =
     (let morse = morse_of char in
      case symbol_loop morse 1 (length morse) m of Inl x \<Rightarrow> Inl x | Inr m1 \<Rightarrow>
       (if wordCounter < lenWord then
          (case goOff_unless_off m1 of Inl x \<Rightarrow> Inl x | Inr m2 \<Rightarrow>
           (case fire doLP m2 of Inl x \<Rightarrow> Inl x | Inr m3 \<Rightarrow>
              char_loop rest (wordCounter + 1) lenWord m3))
        else char_loop rest wordCounter lenWord m1))"

text \<open>\<^verbatim>\<open>for word in wordList\<close>\<close>

fun word_loop :: "string list \<Rightarrow> nat \<Rightarrow> nat \<Rightarrow> CWMachine \<Rightarrow> error + CWMachine" where
  "word_loop [] wordsCounter lenWords m = Inr m"
| "word_loop (word # rest) wordsCounter lenWords m =
     (case char_loop (upper word) 1 (length word) m of Inl x \<Rightarrow> Inl x | Inr m1 \<Rightarrow>
       (if wordsCounter < lenWords then
          (case goOff_unless_off m1 of Inl x \<Rightarrow> Inl x | Inr m2 \<Rightarrow>
           (case fire doWP m2 of Inl x \<Rightarrow> Inl x | Inr m3 \<Rightarrow>
              word_loop rest (wordsCounter + 1) lenWords m3))
        else word_loop rest wordsCounter lenWords m1))"

text \<open>The body of \<^verbatim>\<open>while not self.endTransmission\<close>: one pass over the active message.\<close>

definition transmit_pass :: "CWMachine \<Rightarrow> error + CWMachine" where
  "transmit_pass m =
     (let m0 = m\<lparr>screen := updateScreen (''Sending:'' @ [newline] @ activeMessage m) (screen m)\<rparr>;
          wordList = split (activeMessage m0)
      in word_loop wordList 1 (length wordList) m0)"

text \<open>
  \<^verbatim>\<open>transmit\<close>. The main thread sets \<^verbatim>\<open>endTransmission\<close> at some moment; the loop
  reads the flag in its \<^verbatim>\<open>while\<close> test and nowhere else. \<open>endTransmission t\<close> is the
  value a read at elapsed time \<open>t\<close> sees. The first argument bounds the number of
  loop tests; \<open>None\<close> means the bound was reached before the loop left.
\<close>

fun transmit :: "nat \<Rightarrow> (rat \<Rightarrow> bool) \<Rightarrow> CWMachine \<Rightarrow> (error + CWMachine) option" where
  "transmit 0 endTransmission m = None"
| "transmit (Suc n) endTransmission m =
     (if \<not> endTransmission (elapsed m) then
        (case transmit_pass m of
           Inl x \<Rightarrow> Some (Inl x)
         | Inr m1 \<Rightarrow> transmit n endTransmission m1)
      else Some (Inr (m\<lparr>screen := cleanupDisplay (screen m)\<rparr>)))"

text \<open>The main thread storing \<^verbatim>\<open>True\<close> into the flag at time \<open>t0\<close>.\<close>

definition set_at :: "rat \<Rightarrow> rat \<Rightarrow> bool" where
  "set_at t0 t = (t0 \<le> t)"

text \<open>Whether the loop has left, with the pins released, by elapsed time \<open>t\<close>.\<close>

definition exits_by :: "rat \<Rightarrow> (error + CWMachine) option \<Rightarrow> bool" where
  "exits_by t r = (case r of Some (Inr m) \<Rightarrow> elapsed m \<le> t | _ \<Rightarrow> False)"


section \<open>Thermostat.py: the thermostat\<close>

subsection \<open>States, outputs and the machine\<close>

text \<open>
  The beacon already uses the name \<open>off\<close>, so the thermostat's idle state is \<open>off_t\<close>;
  the same suffix marks the fields that both classes have. \<open>state_id\<close> is the
  \<^verbatim>\<open>id\<close> string of a state, which the code compares and prints.
\<close>

datatype tstate = off_t | heat | cool

fun state_id :: "tstate \<Rightarrow> string" where
  "state_id off_t = ''off''"
| "state_id heat = ''heat''"
| "state_id cool = ''cool''"

text \<open>A \<^verbatim>\<open>PWMLED\<close> after \<^verbatim>\<open>off()\<close>, \<^verbatim>\<open>on()\<close> or \<^verbatim>\<open>pulse(...)\<close>.\<close>

datatype led = led_off | led_on | led_pulse

record TemperatureMachine =
  current_state_t :: tstate
  setPoint :: int
  endDisplay :: bool
  redLight_t :: led
  blueLight_t :: led

definition tsm :: TemperatureMachine where
  "tsm = \<lparr>current_state_t = off_t, setPoint = 72, endDisplay = False,
     redLight_t = led_off, blueLight_t = led_off\<rparr>"

subsection \<open>Reading the sensor and driving the lights\<close>

text \<open>
  The sensor is outside the program: every function that reads it takes the reading
  \<open>c\<close> (degrees Celsius) as an argument. The conversion is the source's expression,
  computed here on rationals.
\<close>

definition getFahrenheit :: "rat \<Rightarrow> rat" where
  "getFahrenheit c = ((9 / 5) * c) + 32"

definition updateLights :: "rat \<Rightarrow> TemperatureMachine \<Rightarrow> TemperatureMachine" where
  "updateLights c m =
     (let temp = \<lfloor>getFahrenheit c\<rfloor>;
          m0 = m\<lparr>redLight_t := led_off, blueLight_t := led_off\<rparr>
      in if state_id (current_state_t m0) = ''heat'' then
           (if temp < setPoint m0 then m0\<lparr>redLight_t := led_pulse\<rparr>
            else m0\<lparr>redLight_t := led_on\<rparr>)
         else if state_id (current_state_t m0) = ''cool'' then
           (if temp > setPoint m0 then m0\<lparr>blueLight_t := led_pulse\<rparr>
            else m0\<lparr>blueLight_t := led_on\<rparr>)
         else m0)"

subsection \<open>The cycle event and the buttons\<close>

fun cycle_target :: "tstate \<Rightarrow> tstate option" where
  "cycle_target off_t = Some heat"
| "cycle_target heat = Some cool"
| "cycle_target cool = Some off_t"

fun on_enter_t :: "tstate \<Rightarrow> rat \<Rightarrow> TemperatureMachine \<Rightarrow> TemperatureMachine" where
  "on_enter_t heat c m = updateLights c m"
| "on_enter_t cool c m = updateLights c m"
| "on_enter_t off_t c m = updateLights c m"

fun on_exit_t :: "tstate \<Rightarrow> TemperatureMachine \<Rightarrow> TemperatureMachine" where
  "on_exit_t heat m = m\<lparr>redLight_t := led_off\<rparr>"
| "on_exit_t cool m = m\<lparr>blueLight_t := led_off\<rparr>"
| "on_exit_t off_t m = m"

definition cycle :: "rat \<Rightarrow> TemperatureMachine \<Rightarrow> error + TemperatureMachine" where
  "cycle c m =
     (case cycle_target (current_state_t m) of
        None \<Rightarrow> Inl InvalidTransition
      | Some target \<Rightarrow>
          Inr (on_enter_t target c ((on_exit_t (current_state_t m) m)\<lparr>current_state_t := target\<rparr>)))"

definition then_cycle :: "rat \<Rightarrow> error + TemperatureMachine \<Rightarrow> error + TemperatureMachine" where
  "then_cycle c r = (case r of Inl x \<Rightarrow> Inl x | Inr m \<Rightarrow> cycle c m)"

definition result_state_t :: "error + TemperatureMachine \<Rightarrow> error + tstate" where
  "result_state_t r = map_sum id current_state_t r"

definition processTempStateButton :: "rat \<Rightarrow> TemperatureMachine \<Rightarrow> error + TemperatureMachine" where
  "processTempStateButton c m =
     (case cycle c m of Inl x \<Rightarrow> Inl x | Inr m1 \<Rightarrow> Inr (updateLights c m1))"

definition processTempIncButton :: "rat \<Rightarrow> TemperatureMachine \<Rightarrow> TemperatureMachine" where
  "processTempIncButton c m = updateLights c (m\<lparr>setPoint := setPoint m + 1\<rparr>)"

definition processTempDecButton :: "rat \<Rightarrow> TemperatureMachine \<Rightarrow> TemperatureMachine" where
  "processTempDecButton c m = updateLights c (m\<lparr>setPoint := setPoint m - 1\<rparr>)"

subsection \<open>Formatting\<close>

text \<open>
  \<open>str\<close> is Python's decimal rendering of an integer, as an f-string produces it;
  \<open>ljust\<close> pads on the right with spaces; \<open>title\<close> is \<^verbatim>\<open>str.title()\<close> on one
  word of letters, which is what a state id is.
\<close>

definition digit :: "nat \<Rightarrow> char" where
  "digit n = char_of (48 + n)"

fun digits :: "nat \<Rightarrow> string" where
  "digits n = (if n < 10 then [digit n] else digits (n div 10) @ [digit (n mod 10)])"

declare digits.simps [simp del]

definition str :: "int \<Rightarrow> string" where
  "str i = (if i < 0 then CHR ''-'' # digits (nat (- i)) else digits (nat i))"

definition ljust :: "nat \<Rightarrow> string \<Rightarrow> string" where
  "ljust width s = s @ replicate (width - length s) CHR '' ''"

definition lower_char :: "char \<Rightarrow> char" where
  "lower_char c = (let n = (of_char c :: nat) in if 65 \<le> n \<and> n \<le> 90 then char_of (n + 32) else c)"

definition title :: "string \<Rightarrow> string" where
  "title s = (case s of [] \<Rightarrow> [] | c # cs \<Rightarrow> upper_char c # map lower_char cs)"

definition setupSerialOutput :: "rat \<Rightarrow> TemperatureMachine \<Rightarrow> string" where
  "setupSerialOutput c m =
     (let temp = \<lfloor>getFahrenheit c\<rfloor>
      in state_id (current_state_t m) @ '','' @ str temp @ '','' @ str (setPoint m))"

subsection \<open>The display and serial worker\<close>

text \<open>
  What one iteration of the worker's loop receives from outside: the formatted clock
  (the result of \<^verbatim>\<open>strftime\<close>), the sensor reading, and whether the main thread has
  set \<^verbatim>\<open>endDisplay\<close> since the previous loop test.
\<close>

record tick =
  now :: string
  celsius :: rat
  interrupted :: bool

text \<open>What one iteration produces: the two display lines and the bytes written to the serial port, if any.\<close>

record rendered =
  lcd_line_1 :: string
  lcd_line_2 :: string
  written :: "string option"

datatype worker_event = Tick rendered | Cleanup

fun written_of :: "worker_event \<Rightarrow> string option" where
  "written_of (Tick r) = written r"
| "written_of Cleanup = None"

fun line_2_of :: "worker_event \<Rightarrow> string" where
  "line_2_of (Tick r) = lcd_line_2 r"
| "line_2_of Cleanup = []"

text \<open>
  The body of \<^verbatim>\<open>while not self.endDisplay\<close>, from the two counters and the machine to
  the rendered output, the new counters and the machine.
\<close>

definition loop_body ::
  "tick \<Rightarrow> nat \<Rightarrow> nat \<Rightarrow> TemperatureMachine \<Rightarrow> rendered \<times> nat \<times> nat \<times> TemperatureMachine" where
  "loop_body t counter altCounter m =
     (let line1 = now t;
          (line2, altCounter1, m1) =
            (if altCounter < 6 then
               (ljust 16 (''Temp:'' @ str \<lfloor>getFahrenheit (celsius t)\<rfloor> @ ''F''), altCounter, m)
             else
               (let state_name = title (state_id (current_state_t m));
                    l2 = ljust 16 (state_name @ '':'' @ str (setPoint m) @ ''F'')
                in if altCounter \<ge> 11 then (l2, 1, updateLights (celsius t) m)
                   else (l2, altCounter, m)));
          altCounter2 = altCounter1 + 1;
          (w, counter1) =
            (if counter mod 30 = 0 then
               (Some (setupSerialOutput (celsius t) m1 @ [newline]), 1)
             else (None, counter + 1))
      in (\<lparr>lcd_line_1 = line1, lcd_line_2 = line2, written = w\<rparr>, counter1, altCounter2, m1))"

text \<open>
  The loop over the ticks supplied; it stops at the first test that finds
  \<^verbatim>\<open>endDisplay\<close> set and releases the display. The trace of a list of ticks is the
  prefix of the worker's endless run over them.
\<close>

fun display_loop :: "tick list \<Rightarrow> nat \<Rightarrow> nat \<Rightarrow> TemperatureMachine \<Rightarrow> worker_event list" where
  "display_loop [] counter altCounter m = []"
| "display_loop (t # ts) counter altCounter m =
     (let m0 = (if interrupted t then m\<lparr>endDisplay := True\<rparr> else m)
      in if \<not> endDisplay m0 then
           (case loop_body t counter altCounter m0 of
              (r, counter1, altCounter1, m1) \<Rightarrow> Tick r # display_loop ts counter1 altCounter1 m1)
         else [Cleanup])"

definition manageMyDisplay :: "tick list \<Rightarrow> TemperatureMachine \<Rightarrow> worker_event list" where
  "manageMyDisplay ts m = display_loop ts 1 1 m"


section \<open>Properties of the beacon\<close>

subsection \<open>Firing events never fails inside the transmission loop\<close>

lemmas entry_exit_defs = on_enter_dot_def on_enter_dash_def on_enter_dotDashPause_def
  on_enter_letterPause_def on_enter_wordPause_def on_exit_dot_def on_exit_dash_def sleep_def

lemma on_enter_state [simp]: "current_state (on_enter t m) = current_state m"
  by (cases t) (simp_all add: entry_exit_defs)

lemma on_exit_state [simp]: "current_state (on_exit t m) = current_state m"
  by (cases t) (simp_all add: entry_exit_defs)

lemma fire_from_off:
  "current_state m = off \<Longrightarrow> e \<noteq> goOff \<Longrightarrow> \<exists>m'. fire e m = Inr m' \<and> current_state m' \<noteq> off"
  by (cases e) (simp_all add: fire_def entry_exit_defs)

lemma fire_goOff:
  "current_state m \<noteq> off \<Longrightarrow> \<exists>m'. fire goOff m = Inr m' \<and> current_state m' = off"
  by (cases "current_state m") (simp_all add: fire_def)

lemma goOff_from_off: "current_state m = off \<Longrightarrow> fire goOff m = Inl InvalidTransition"
  by (simp add: fire_def)

lemma doDot_invalid_elsewhere:
  "current_state m \<in> {dash, dotDashPause, letterPause, wordPause} \<Longrightarrow>
     fire doDot m = Inl InvalidTransition"
  by (auto simp: fire_def)

lemma goOff_unless_off_ok: "\<exists>m'. goOff_unless_off m = Inr m' \<and> current_state m' = off"
  using fire_goOff [of m] by (auto simp: goOff_unless_off_def)

lemma symbol_loop_ok: "\<exists>m'. symbol_loop morse mc lm m = Inr m'"
proof (induction morse arbitrary: mc m)
  case Nil
  show ?case by simp
next
  case (Cons symbol rest)
  obtain m1 where m1: "goOff_unless_off m = Inr m1" "current_state m1 = off"
    using goOff_unless_off_ok by blast
  have "\<exists>m2. (if symbol = CHR ''.'' then fire doDot m1
             else if symbol = CHR ''-'' then fire doDash m1
             else Inr m1) = Inr m2"
    using fire_from_off [OF m1(2), of doDot] fire_from_off [OF m1(2), of doDash] by auto
  then obtain m2 where m2: "(if symbol = CHR ''.'' then fire doDot m1
             else if symbol = CHR ''-'' then fire doDash m1
             else Inr m1) = Inr m2" ..
  obtain m3 where m3: "goOff_unless_off m2 = Inr m3" "current_state m3 = off"
    using goOff_unless_off_ok by blast
  obtain m4 where m4: "fire doDDP m3 = Inr m4"
    using fire_from_off [OF m3(2), of doDDP] by auto
  show ?case
    using m1 m2 m3 m4 Cons.IH by simp
qed

lemma char_loop_ok: "\<exists>m'. char_loop cs wc lw m = Inr m'"
proof (induction cs arbitrary: wc m)
  case Nil
  show ?case by simp
next
  case (Cons char rest)
  obtain m1 where m1: "symbol_loop (morse_of char) 1 (length (morse_of char)) m = Inr m1"
    using symbol_loop_ok by blast
  obtain m2 where m2: "goOff_unless_off m1 = Inr m2" "current_state m2 = off"
    using goOff_unless_off_ok by blast
  obtain m3 where m3: "fire doLP m2 = Inr m3"
    using fire_from_off [OF m2(2), of doLP] by auto
  show ?case
    using m1 m2 m3 Cons.IH by (simp add: Let_def)
qed

lemma word_loop_ok: "\<exists>m'. word_loop ws wc lw m = Inr m'"
proof (induction ws arbitrary: wc m)
  case Nil
  show ?case by simp
next
  case (Cons word rest)
  obtain m1 where m1: "char_loop (upper word) 1 (length word) m = Inr m1"
    using char_loop_ok by blast
  obtain m2 where m2: "goOff_unless_off m1 = Inr m2" "current_state m2 = off"
    using goOff_unless_off_ok by blast
  obtain m3 where m3: "fire doWP m2 = Inr m3"
    using fire_from_off [OF m2(2), of doWP] by auto
  show ?case
    using m1 m2 m3 Cons.IH by simp
qed

lemma transmit_pass_ok: "\<exists>m'. transmit_pass m = Inr m'"
  by (simp add: transmit_pass_def Let_def word_loop_ok)

text \<open>One pass over \<^verbatim>\<open>SOS\<close> from the initial machine blocks for 10.5 seconds.\<close>

lemma SOS_pass: "map_sum id elapsed (transmit_pass cwMachine) = Inr (21 / 2)"
  by code_simp

subsection \<open>The dot event\<close>

text \<open>
  C1, as amended. From \<open>off\<close> the event \<open>doDot\<close> moves the machine to \<open>dot\<close>; from there
  \<open>goOff\<close> returns it to \<open>off\<close>; and \<open>doDot\<close> fired again from \<open>dot\<close> is the declared
  transition \<^verbatim>\<open>dot.to(off)\<close>: it returns the machine to \<open>off\<close> and raises nothing.
\<close>

theorem beacon_dot_round_trip:
  "current_state m = off \<Longrightarrow>
     result_state (fire doDot m) = Inr dot \<and>
     result_state (then_fire goOff (fire doDot m)) = Inr off \<and>
     result_state (then_fire doDot (fire doDot m)) = Inr off"
  by (simp add: result_state_def then_fire_def fire_def entry_exit_defs)

theorem beacon_dot_round_trip_witness:
  "current_state cwMachine = off \<and>
   result_state (fire doDot cwMachine) = Inr dot \<and>
   result_state (then_fire goOff (fire doDot cwMachine)) = Inr off \<and>
   result_state (then_fire doDot (fire doDot cwMachine)) = Inr off"
proof -
  have h: "current_state cwMachine = off" by (simp add: cwMachine_def)
  show ?thesis using h beacon_dot_round_trip [OF h] by simp
qed

text \<open>
  C1 as stated fails: on the initial machine, \<open>doDot\<close> fired twice in a row ends in
  \<open>off\<close>, not in \<open>InvalidTransition\<close>.
\<close>

theorem doDot_from_dot_returns_to_off:
  "result_state (then_fire doDot (fire doDot cwMachine)) = Inr off \<and>
   then_fire doDot (fire doDot cwMachine) \<noteq> Inl InvalidTransition"
  by (simp add: result_state_def then_fire_def fire_def cwMachine_def entry_exit_defs)

subsection \<open>Where the termination flag is read\<close>

text \<open>
  C2, as amended. The flag is read in the \<^verbatim>\<open>while\<close> test only, once before each full
  pass over the active message. A test that finds it set leaves the loop and releases
  the display. A test that finds it clear runs the whole pass, which never fails; if the
  flag is set by the end of that pass, the next test leaves the loop. So the loop leaves
  at the end of the pass during which the flag was set, and the delay is bounded by the
  blocking time of one pass, not of one hold.
\<close>

theorem transmit_exits_at_pass_boundary:
  "(endTransmission (elapsed m) \<longrightarrow>
      transmit (Suc n) endTransmission m = Some (Inr (m\<lparr>screen := cleanupDisplay (screen m)\<rparr>))) \<and>
   (\<not> endTransmission (elapsed m) \<longrightarrow>
      (\<exists>m1. transmit_pass m = Inr m1 \<and>
         (endTransmission (elapsed m1) \<longrightarrow>
            transmit (Suc (Suc n)) endTransmission m =
              Some (Inr (m1\<lparr>screen := cleanupDisplay (screen m1)\<rparr>)))))"
proof -
  obtain m1 where "transmit_pass m = Inr m1" using transmit_pass_ok by blast
  then show ?thesis by simp
qed

theorem transmit_exits_at_pass_boundary_witness:
  "(set_at 0 (elapsed cwMachine) \<and>
    transmit (Suc 0) (set_at 0) cwMachine =
      Some (Inr (cwMachine\<lparr>screen := cleanupDisplay (screen cwMachine)\<rparr>))) \<and>
   (\<not> set_at (1 / 4) (elapsed cwMachine) \<and>
    (\<exists>m1. transmit_pass cwMachine = Inr m1 \<and> set_at (1 / 4) (elapsed m1) \<and>
       transmit (Suc (Suc 0)) (set_at (1 / 4)) cwMachine =
         Some (Inr (m1\<lparr>screen := cleanupDisplay (screen m1)\<rparr>))))"
proof -
  have h0: "set_at 0 (elapsed cwMachine)" by (simp add: set_at_def cwMachine_def)
  have h1: "\<not> set_at (1 / 4) (elapsed cwMachine)" by (simp add: set_at_def cwMachine_def)
  from h1 transmit_exits_at_pass_boundary [of "set_at (1 / 4)" cwMachine 0]
  obtain m1 where p: "transmit_pass cwMachine = Inr m1"
    and q: "set_at (1 / 4) (elapsed m1) \<longrightarrow>
       transmit (Suc (Suc 0)) (set_at (1 / 4)) cwMachine =
         Some (Inr (m1\<lparr>screen := cleanupDisplay (screen m1)\<rparr>))"
    by blast
  have "elapsed m1 = 21 / 2" using SOS_pass p by simp
  then have r: "set_at (1 / 4) (elapsed m1)" by (simp add: set_at_def)
  show ?thesis
    using h0 h1 p q r transmit_exits_at_pass_boundary [of "set_at 0" cwMachine 0] by blast
qed

text \<open>
  C2 as stated fails: with \<^verbatim>\<open>SOS\<close> active and the flag set a quarter of a second into
  the first dot, the loop leaves at 10.5 seconds, after every remaining symbol of the
  message, and not within the 3 seconds of the longest hold.
\<close>

theorem transmit_not_polled_between_symbols:
  "map_option (map_sum id elapsed) (transmit 2 (set_at (1 / 4)) cwMachine) = Some (Inr (21 / 2)) \<and>
   \<not> exits_by (1 / 4 + 3) (transmit 2 (set_at (1 / 4)) cwMachine)"
  by code_simp

subsection \<open>Hold durations\<close>

text \<open>
  C7. Entering \<open>dot\<close> blocks for 0.5 seconds and entering \<open>dash\<close> for 1.5, three times
  as long; the pause after a dot or dash blocks for 0.25, the letter pause for 0.75 and
  the word pause for 3.
\<close>

theorem hold_durations:
  "elapsed (on_enter dot m) - elapsed m = 1 / 2 \<and>
   elapsed (on_enter dash m) - elapsed m = 3 / 2 \<and>
   elapsed (on_enter dash m) - elapsed m = 3 * (elapsed (on_enter dot m) - elapsed m) \<and>
   elapsed (on_enter dotDashPause m) - elapsed m = 1 / 4 \<and>
   elapsed (on_enter letterPause m) - elapsed m = 3 / 4 \<and>
   elapsed (on_enter wordPause m) - elapsed m = 3"
  by (simp add: entry_exit_defs)

subsection \<open>Return to idle\<close>

text \<open>
  C8. From every state other than \<open>off\<close> the event \<open>goOff\<close> is legal and leads to
  \<open>off\<close>; it never raises \<open>InvalidTransition\<close> there.
\<close>

theorem goOff_legal_from_non_idle:
  "current_state m \<noteq> off \<Longrightarrow>
     result_state (fire goOff m) = Inr off \<and> fire goOff m \<noteq> Inl InvalidTransition"
  using fire_goOff [of m] by (auto simp: result_state_def)

theorem goOff_legal_from_non_idle_witness:
  "current_state (cwMachine\<lparr>current_state := wordPause\<rparr>) \<noteq> off \<and>
   result_state (fire goOff (cwMachine\<lparr>current_state := wordPause\<rparr>)) = Inr off \<and>
   fire goOff (cwMachine\<lparr>current_state := wordPause\<rparr>) \<noteq> Inl InvalidTransition"
proof -
  have h: "current_state (cwMachine\<lparr>current_state := wordPause\<rparr>) \<noteq> off" by simp
  show ?thesis using h goOff_legal_from_non_idle [OF h] by simp
qed

subsection \<open>Characters without a code\<close>

text \<open>
  C9. For a character of the uppercased word that the table does not contain, the
  symbol loop fires no event and leaves the machine as it was; the character loop
  performs at most the letter pause that follows every character but the last and goes
  on with the remaining characters; and the whole loop ends without an error.
\<close>

theorem unknown_char_skipped:
  "morseDict char = None \<Longrightarrow>
     symbol_loop (morse_of char) 1 (length (morse_of char)) m = Inr m \<and>
     char_loop (char # rest) wordCounter lenWord m =
       (if wordCounter < lenWord then
          (case then_fire doLP (goOff_unless_off m) of
             Inl x \<Rightarrow> Inl x
           | Inr m3 \<Rightarrow> char_loop rest (wordCounter + 1) lenWord m3)
        else char_loop rest wordCounter lenWord m) \<and>
     (\<exists>m'. char_loop (char # rest) wordCounter lenWord m = Inr m')"
proof -
  assume "morseDict char = None"
  then have e: "morse_of char = []" by (simp add: morse_of_def)
  have "char_loop (char # rest) wordCounter lenWord m =
       (if wordCounter < lenWord then
          (case then_fire doLP (goOff_unless_off m) of
             Inl x \<Rightarrow> Inl x
           | Inr m3 \<Rightarrow> char_loop rest (wordCounter + 1) lenWord m3)
        else char_loop rest wordCounter lenWord m)"
    by (simp add: e then_fire_def split: sum.splits)
  then show ?thesis using e char_loop_ok [of "char # rest" wordCounter lenWord m] by simp
qed

theorem unknown_char_skipped_witness:
  "morseDict CHR ''#'' = None \<and>
   symbol_loop (morse_of CHR ''#'') 1 (length (morse_of CHR ''#'')) cwMachine = Inr cwMachine \<and>
   (\<exists>m'. char_loop ''#S'' 1 2 cwMachine = Inr m')"
proof -
  have h: "morseDict CHR ''#'' = None" by (simp add: morseDict_def)
  show ?thesis using h unknown_char_skipped [OF h, of cwMachine "''S''" 1 2] by blast
qed

subsection \<open>The message toggle\<close>

text \<open>
  C10. When the active message is one of the two configured messages, \<open>toggleMessage\<close>
  sets it to the other one, so it stays one of the two, and two calls restore it.
\<close>

theorem toggleMessage_involution:
  "activeMessage m \<in> {message1, message2} \<Longrightarrow>
     activeMessage (toggleMessage m) \<in> {message1, message2} \<and>
     activeMessage (toggleMessage m) \<noteq> activeMessage m \<and>
     activeMessage (toggleMessage (toggleMessage m)) = activeMessage m"
  by (auto simp: toggleMessage_def message1_def message2_def)

theorem toggleMessage_involution_witness:
  "activeMessage cwMachine \<in> {message1, message2} \<and>
   activeMessage (toggleMessage cwMachine) = ''OK'' \<and>
   activeMessage (toggleMessage (toggleMessage cwMachine)) = ''SOS''"
proof -
  have h: "activeMessage cwMachine \<in> {message1, message2}" by (simp add: cwMachine_def)
  have a: "activeMessage cwMachine = ''SOS''" by (simp add: cwMachine_def message1_def)
  show ?thesis using h a toggleMessage_involution [OF h]
    by (auto simp: message1_def message2_def)
qed


section \<open>Properties of the thermostat\<close>

subsection \<open>What the worker leaves unchanged\<close>

lemma updateLights_keeps [simp]:
  "current_state_t (updateLights c m) = current_state_t m"
  "setPoint (updateLights c m) = setPoint m"
  "endDisplay (updateLights c m) = endDisplay m"
  by (simp_all add: updateLights_def Let_def)

lemma loop_body_written:
  "written (fst (loop_body t counter altCounter m)) =
     (if counter mod 30 = 0 then Some (setupSerialOutput (celsius t) m @ [newline]) else None)"
  by (simp add: loop_body_def Let_def setupSerialOutput_def split: prod.splits)

lemma loop_body_counter:
  "fst (snd (loop_body t counter altCounter m)) = (if counter mod 30 = 0 then 1 else counter + 1)"
  by (simp add: loop_body_def Let_def split: prod.splits)

lemma loop_body_machine:
  "current_state_t (snd (snd (snd (loop_body t counter altCounter m)))) = current_state_t m"
  "setPoint (snd (snd (snd (loop_body t counter altCounter m)))) = setPoint m"
  "endDisplay (snd (snd (snd (loop_body t counter altCounter m)))) = endDisplay m"
  by (simp_all add: loop_body_def Let_def split: prod.splits)

lemma display_loop_Cons:
  "\<not> interrupted t \<Longrightarrow> \<not> endDisplay m \<Longrightarrow>
   display_loop (t # ts) counter altCounter m =
     Tick (fst (loop_body t counter altCounter m)) #
       display_loop ts (fst (snd (loop_body t counter altCounter m)))
         (fst (snd (snd (loop_body t counter altCounter m))))
         (snd (snd (snd (loop_body t counter altCounter m))))"
  by (simp add: Let_def split: prod.splits)

text \<open>
  The serial counter stays between 1 and 30, and the tick that finds it at 30 writes.
  Stated for any starting value of the counter, so that the induction goes through.
\<close>

lemma display_loop_serial:
  "\<forall>t \<in> set ts. \<not> interrupted t \<Longrightarrow> \<not> endDisplay m \<Longrightarrow>
   1 \<le> counter \<Longrightarrow> counter \<le> 30 \<Longrightarrow> k < length ts \<Longrightarrow>
     display_loop ts counter altCounter m ! k \<noteq> Cleanup \<and>
     written_of (display_loop ts counter altCounter m ! k) =
       (if (k + counter) mod 30 = 0 then
          Some (state_id (current_state_t m) @ '','' @ str \<lfloor>getFahrenheit (celsius (ts ! k))\<rfloor>
                @ '','' @ str (setPoint m) @ [newline])
        else None)"
proof (induction ts arbitrary: counter altCounter m k)
  case Nil
  then show ?case by simp
next
  case (Cons t ts)
  have ni: "\<not> interrupted t" using Cons.prems(1) by simp
  note unfold = display_loop_Cons [OF ni Cons.prems(2), of ts counter altCounter]
  let ?c1 = "fst (snd (loop_body t counter altCounter m))"
  let ?a1 = "fst (snd (snd (loop_body t counter altCounter m)))"
  let ?m1 = "snd (snd (snd (loop_body t counter altCounter m)))"
  have c1: "?c1 = (if counter mod 30 = 0 then 1 else counter + 1)"
    by (rule loop_body_counter)
  have full: "(counter mod 30 = 0) = (counter = 30)"
    using Cons.prems(3,4) by auto
  show ?case
  proof (cases k)
    case 0
    then show ?thesis
      using unfold by (simp add: loop_body_written setupSerialOutput_def Let_def)
  next
    case (Suc j)
    have j: "j < length ts" using Cons.prems(5) Suc by simp
    have b1: "1 \<le> ?c1" and b2: "?c1 \<le> 30"
      using c1 full Cons.prems(3,4) by auto
    have e1: "\<not> endDisplay ?m1" using Cons.prems(2) by (simp add: loop_body_machine)
    have r1: "\<forall>t \<in> set ts. \<not> interrupted t" using Cons.prems(1) by simp
    have md: "((j + ?c1) mod 30 = 0) = ((Suc j + counter) mod 30 = 0)"
      using c1 full by (auto simp: mod_Suc)
    have ih: "display_loop ts ?c1 ?a1 ?m1 ! j \<noteq> Cleanup \<and>
     written_of (display_loop ts ?c1 ?a1 ?m1 ! j) =
       (if (j + ?c1) mod 30 = 0 then
          Some (state_id (current_state_t ?m1) @ '','' @ str \<lfloor>getFahrenheit (celsius (ts ! j))\<rfloor>
                @ '','' @ str (setPoint ?m1) @ [newline])
        else None)"
      by (rule Cons.IH [OF r1 e1 b1 b2 j])
    show ?thesis
      using ih md unfold Suc by (simp add: loop_body_machine)
  qed
qed

lemma str_68: "str 68 = ''68''"
  by code_simp

lemma str_72: "str 72 = ''72''"
  by code_simp

subsection \<open>The alternating second line\<close>

text \<open>
  C3. The claim is that the second line changes content every 5 ticks for ever. The
  loop does that for ticks 1 to 10 only. On tick 11 the counter is reset inside the
  branch that renders mode and setpoint, and is then incremented to 2 in the same
  iteration: tick 11 still shows mode and setpoint, and only four temperature ticks
  follow. Over 21 ticks at 20 degrees Celsius in \<open>heat\<close> the runs have lengths 5, 6, 4
  and 6.
\<close>

theorem alternation_drifts:
  "map line_2_of
     (manageMyDisplay
        (replicate 21 \<lparr>now = ''2025-01-01 00:00'', celsius = 20, interrupted = False\<rparr>)
        (tsm\<lparr>current_state_t := heat\<rparr>)) =
   replicate 5 ''Temp:68F        '' @ replicate 6 ''Heat:72F        '' @
   replicate 4 ''Temp:68F        '' @ replicate 6 ''Heat:72F        ''"
  by code_simp

subsection \<open>The serial record\<close>

text \<open>
  C4. While the worker is not interrupted, tick number \<open>k + 1\<close> writes to the serial
  port exactly when \<open>k + 1\<close> is a multiple of 30, and what it writes is the state id,
  the floor of the Fahrenheit temperature and the setpoint, separated by commas and
  ended by a newline. An iteration that writes sets the serial counter back to 1; any
  other iteration adds 1 to it.
\<close>

theorem serial_every_30_ticks:
  "\<forall>t \<in> set ts. \<not> interrupted t \<Longrightarrow> \<not> endDisplay m \<Longrightarrow> k < length ts \<Longrightarrow>
     manageMyDisplay ts m ! k \<noteq> Cleanup \<and>
     written_of (manageMyDisplay ts m ! k) =
       (if (k + 1) mod 30 = 0 then
          Some (state_id (current_state_t m) @ '','' @ str \<lfloor>getFahrenheit (celsius (ts ! k))\<rfloor>
                @ '','' @ str (setPoint m) @ [newline])
        else None) \<and>
     fst (snd (loop_body t counter altCounter m')) = (if counter mod 30 = 0 then 1 else counter + 1)"
  unfolding manageMyDisplay_def
  using display_loop_serial [of ts m 1 k 1] loop_body_counter [of t counter altCounter m']
  by simp

theorem serial_every_30_ticks_witness:
  "set (replicate 30 \<lparr>now = ''2025-01-01 00:00'', celsius = 20, interrupted = False\<rparr>) =
     {\<lparr>now = ''2025-01-01 00:00'', celsius = 20, interrupted = False\<rparr>} \<and>
   \<not> interrupted \<lparr>now = ''2025-01-01 00:00'', celsius = 20, interrupted = False\<rparr> \<and>
   \<not> endDisplay tsm \<and>
   29 < length (replicate 30 \<lparr>now = ''2025-01-01 00:00'', celsius = 20, interrupted = False\<rparr>) \<and>
   written_of
     (manageMyDisplay
        (replicate 30 \<lparr>now = ''2025-01-01 00:00'', celsius = 20, interrupted = False\<rparr>) tsm ! 29) =
     Some (''off,68,72'' @ [newline]) \<and>
   written_of
     (manageMyDisplay
        (replicate 30 \<lparr>now = ''2025-01-01 00:00'', celsius = 20, interrupted = False\<rparr>) tsm ! 28) =
     None"
proof -
  let ?ts = "replicate 30 \<lparr>now = ''2025-01-01 00:00'', celsius = 20, interrupted = False\<rparr>"
  have a: "\<forall>t \<in> set ?ts. \<not> interrupted t" by simp
  have b: "\<not> endDisplay tsm" by (simp add: tsm_def)
  have c: "29 < length ?ts" by simp
  have d: "28 < length ?ts" by simp
  have f: "\<lfloor>getFahrenheit 20\<rfloor> = 68" by (simp add: getFahrenheit_def)
  show ?thesis
    using a b c serial_every_30_ticks [OF a b c] serial_every_30_ticks [OF a b d]
    by (simp add: f str_68 str_72 tsm_def)
qed

subsection \<open>The lights\<close>

text \<open>
  C5. In \<open>heat\<close> the red light pulses when the floored temperature is below the
  setpoint and is steadily on otherwise (equality included), with the blue light off;
  in \<open>cool\<close> the blue light pulses when the floored temperature is above the setpoint
  and is steadily on otherwise, with the red light off; in \<open>off\<close> both are off.
\<close>

theorem updateLights_by_state:
  "(current_state_t m = heat \<longrightarrow>
      redLight_t (updateLights c m) =
        (if \<lfloor>getFahrenheit c\<rfloor> < setPoint m then led_pulse else led_on) \<and>
      blueLight_t (updateLights c m) = led_off) \<and>
   (current_state_t m = cool \<longrightarrow>
      blueLight_t (updateLights c m) =
        (if \<lfloor>getFahrenheit c\<rfloor> > setPoint m then led_pulse else led_on) \<and>
      redLight_t (updateLights c m) = led_off) \<and>
   (current_state_t m = off_t \<longrightarrow>
      redLight_t (updateLights c m) = led_off \<and> blueLight_t (updateLights c m) = led_off)"
  by (simp add: updateLights_def Let_def)

theorem updateLights_by_state_witness:
  "current_state_t (tsm\<lparr>current_state_t := heat\<rparr>) = heat \<and>
   redLight_t (updateLights 20 (tsm\<lparr>current_state_t := heat\<rparr>)) = led_pulse \<and>
   redLight_t (updateLights (200 / 9) (tsm\<lparr>current_state_t := heat\<rparr>)) = led_on \<and>
   current_state_t (tsm\<lparr>current_state_t := cool\<rparr>) = cool \<and>
   blueLight_t (updateLights 25 (tsm\<lparr>current_state_t := cool\<rparr>)) = led_pulse \<and>
   blueLight_t (updateLights (200 / 9) (tsm\<lparr>current_state_t := cool\<rparr>)) = led_on \<and>
   current_state_t tsm = off_t \<and>
   redLight_t (updateLights 25 tsm) = led_off \<and> blueLight_t (updateLights 25 tsm) = led_off"
  using updateLights_by_state [of "tsm\<lparr>current_state_t := heat\<rparr>" 20]
    updateLights_by_state [of "tsm\<lparr>current_state_t := heat\<rparr>" "200 / 9"]
    updateLights_by_state [of "tsm\<lparr>current_state_t := cool\<rparr>" 25]
    updateLights_by_state [of "tsm\<lparr>current_state_t := cool\<rparr>" "200 / 9"]
    updateLights_by_state [of tsm 25]
  by (simp add: tsm_def getFahrenheit_def)

subsection \<open>The ring of modes\<close>

text \<open>
  C6. The event \<open>cycle\<close> leads from \<open>off\<close> to \<open>heat\<close>, from \<open>heat\<close> to \<open>cool\<close> and from
  \<open>cool\<close> to \<open>off\<close>, and fired three times from any state it returns to that state.
\<close>

theorem cycle_ring:
  "result_state_t (cycle c (m\<lparr>current_state_t := off_t\<rparr>)) = Inr heat \<and>
   result_state_t (cycle c (m\<lparr>current_state_t := heat\<rparr>)) = Inr cool \<and>
   result_state_t (cycle c (m\<lparr>current_state_t := cool\<rparr>)) = Inr off_t \<and>
   result_state_t (then_cycle c3 (then_cycle c2 (cycle c1 m))) = Inr (current_state_t m)"
  by (cases "current_state_t m") (simp_all add: result_state_t_def then_cycle_def cycle_def)

end
